theory Spec2Isabelle
  imports Complex_Main "HOL-Library.Char_ord" "HOL-Library.List_Lexorder"
begin

section \<open>Data model\<close>

text \<open>
  A \<open>time.Time\<close> is an instant, modelled as the number of nanoseconds since Go's zero
  instant, so that \<open>IsZero\<close> is equality with 0, \<open>Equal\<close>, \<open>Before\<close> and \<open>After\<close> are
  \<open>=\<close>, \<open><\<close> and \<open>>\<close>, and \<open>Add\<close> is addition. A \<open>time.Duration\<close> is a number of
  nanoseconds. Both are unbounded integers here: the sums the code forms (an instant plus
  at most a few centuries) stay far inside Go's range.
\<close>

type_synonym time = int
type_synonym duration = int

definition Second :: duration where "Second = 1000000000"
definition Minute :: duration where "Minute = 60 * Second"
definition Hour :: duration where "Hour = 60 * Minute"

datatype PodPhase = PodPending | PodRunning | PodSucceeded | PodFailed | PodUnknown | PodPaused

text \<open>
  The fields of \<open>v1.Pod\<close> that the plug-ins read. \<open>Annotations\<close> is a Go map, which may be
  \<open>nil\<close> (\<open>None\<close>): reading a nil map finds no key, storing into it panics. \<open>Priority\<close> is
  the \<open>*int32\<close> of the pod spec; it is only compared, never computed with.
\<close>

record Pod =
  Namespace :: string
  Name :: string
  UID :: string
  Annotations :: "(string \<rightharpoonup> string) option"
  CreationTimestamp :: time
  Priority :: "int option"
  NodeName :: string
  Phase :: PodPhase

definition annotation :: "Pod \<Rightarrow> string \<Rightarrow> string option" where
  \<comment> \<open>\<open>val, ok := pod.Annotations[key]\<close>\<close>
  "annotation p k = (case Annotations p of None \<Rightarrow> None | Some m \<Rightarrow> m k)"

definition PodPriority :: "Pod \<Rightarrow> int" where
  \<comment> \<open>\<open>corev1helpers.PodPriority\<close>: the priority of the spec, 0 when it is nil\<close>
  "PodPriority p = (case Priority p of Some x \<Rightarrow> x | None \<Rightarrow> 0)"

definition GetNamespacedName :: "Pod \<Rightarrow> string" where
  \<comment> \<open>Modelled from the spec: \<open>core.GetNamespacedName\<close> of pkg/coscheduling/core is not among
      the sources; the spec gives the human key of a workload as \<open>namespace/name\<close>.\<close>
  "GetNamespacedName p = Namespace p @ ''/'' @ Name p"

section \<open>Deadline parsing\<close>

definition simpleddl_AnnotationKeyDDL :: string where
  "simpleddl_AnnotationKeyDDL = ''simpleddl.scheduling.x-k8s.io/'' @ ''ddl''"

definition simpleddl_defaultDDLRelative :: duration where
  "simpleddl_defaultDDLRelative = Minute * 10"

definition AnnotationKeyPrefix :: string where
  "AnnotationKeyPrefix = ''rt-preemptive.scheduling.x-k8s.io/''"

definition AnnotationKeyDDL :: string where
  "AnnotationKeyDDL = AnnotationKeyPrefix @ ''ddl''"

definition AnnotationKeyPausePod :: string where
  "AnnotationKeyPausePod = AnnotationKeyPrefix @ ''pause-pod''"

definition AnnotationKeyPreemptible :: string where
  "AnnotationKeyPreemptible = AnnotationKeyPrefix @ ''preemptible''"

definition defaultDDLRelative :: duration where
  "defaultDDLRelative = Hour * 24 * 30"

text \<open>
  \<open>time.ParseDuration\<close> belongs to Go's library; it is a parameter \<open>pd\<close> of the model,
  \<open>None\<close> standing for its error. \<open>time.Now()\<close> is the parameter \<open>now\<close>: the reading of the
  clock that this call would get.
\<close>

definition parseDDL :: "(string \<Rightarrow> duration option) \<Rightarrow> time \<Rightarrow> time \<Rightarrow> Pod \<Rightarrow> time" where
  "parseDDL pd now creationTime p =
     (if creationTime = 0 then now + simpleddl_defaultDDLRelative
      else let defaultDDL = creationTime + simpleddl_defaultDDLRelative in
        case annotation p simpleddl_AnnotationKeyDDL of
          None \<Rightarrow> defaultDDL
        | Some ddlStr \<Rightarrow>
            (case pd ddlStr of
               None \<Rightarrow> defaultDDL
             | Some ddl \<Rightarrow> if ddl < 0 then defaultDDL else creationTime + ddl))"

definition ParsePodDeadline :: "(string \<Rightarrow> duration option) \<Rightarrow> time \<Rightarrow> Pod \<Rightarrow> time" where
  "ParsePodDeadline pd now pod =
     (let creationTime = CreationTimestamp pod in
      if creationTime = 0 then now + defaultDDLRelative
      else let defaultDDL = creationTime + defaultDDLRelative in
        case annotation pod AnnotationKeyDDL of
          None \<Rightarrow> defaultDDL
        | Some ddlStr \<Rightarrow>
            (case pd ddlStr of
               None \<Rightarrow> defaultDDL
             | Some ddl \<Rightarrow> if ddl < 0 then defaultDDL else creationTime + ddl))"

section \<open>Cache keys of the preemption manager\<close>

definition toCacheKey :: "Pod \<Rightarrow> string" where
  \<comment> \<open>\<open>fmt.Sprintf("%s/%s", p.Namespace, p.Name)\<close>\<close>
  "toCacheKey p = Namespace p @ ''/'' @ Name p"

fun Split :: "char \<Rightarrow> string \<Rightarrow> string list" where
  \<comment> \<open>\<open>strings.Split(s, sep)\<close> for a separator of one byte: the substrings between the
      separators, one more than there are separators\<close>
  "Split sep [] = [[]]"
| "Split sep (c # cs) =
     (if c = sep then [] # Split sep cs
      else (case Split sep cs of r # rs \<Rightarrow> (c # r) # rs | [] \<Rightarrow> [[c]]))"

definition parseCacheKey :: "string \<Rightarrow> string \<times> string" where
  "parseCacheKey key =
     (let res = Split (CHR ''/'') key in
      if length res \<noteq> 2 then ([], [])
      else (res ! 0, res ! 1))"

section \<open>The predictor's feature vector\<close>

text \<open>
  \<open>padMetrics\<close> copies and pads \<open>float64\<close> values without computing with them; they are
  modelled as reals. \<open>msize\<close> and the loop counter are Go \<open>int\<close>s; the counter starts at
  \<open>len(metrics) - 1\<close>, which is \<open>-1\<close> for an empty input.
\<close>

function pad_loop :: "int \<Rightarrow> int \<Rightarrow> real list \<Rightarrow> real list" where
  "pad_loop i msize m = (if i < msize then pad_loop (i + 1) msize (m @ [0]) else m)"
  by pat_completeness auto
termination
  by (relation "measure (\<lambda>(i, msize, m). nat (msize - i))") auto

declare pad_loop.simps [simp del]

definition padMetrics :: "int \<Rightarrow> real list \<Rightarrow> real list" where
  "padMetrics msize metrics =
     (let maxSize = (if length metrics < 4 then length metrics else 4);
          m = take maxSize metrics
      in pad_loop (int (length metrics) - 1) msize m)"

section \<open>Queue sort of the SimpleDDL profile\<close>

text \<open>
  \<open>Less\<close> calls \<open>parseDDL\<close> once for each pod, and each call may read the clock: \<open>now1\<close> is
  the reading of the first call, \<open>now2\<close> that of the second. Go compares strings by bytes,
  which is the lexicographic order of \<open>char list\<close>.
\<close>

definition SimpleDDL_Less ::
  "(string \<Rightarrow> duration option) \<Rightarrow> time \<Rightarrow> time \<Rightarrow> Pod \<Rightarrow> Pod \<Rightarrow> bool" where
  "SimpleDDL_Less pd now1 now2 pod1 pod2 =
     (let prio1 = PodPriority pod1; prio2 = PodPriority pod2 in
      if prio1 \<noteq> prio2 then prio1 > prio2
      else
        let creationT1 = CreationTimestamp pod1;
            creationT2 = CreationTimestamp pod2;
            ddl1 = parseDDL pd now1 creationT1 pod1;
            ddl2 = parseDDL pd now2 creationT2 pod2
        in if ddl1 = ddl2 then GetNamespacedName pod1 < GetNamespacedName pod2
           else ddl1 < ddl2)"

section \<open>The cache library\<close>

text \<open>
  The managers keep their entries in a \<open>go-cache\<close> cache (github.com/patrickmn/go-cache),
  a map from string keys to items, each with the instant it expires at as Unix
  nanoseconds (0: never). The library reads the clock in \<open>Set\<close>, \<open>Get\<close>, \<open>Items\<close> and
  \<open>DeleteExpired\<close>; the reading is the parameter \<open>now\<close>. An expired item is not found by
  \<open>Get\<close> and not listed by \<open>Items\<close>, so the library's background sweep is not observable
  and is left out.
\<close>

type_synonym 'v gocache = "string \<rightharpoonup> 'v \<times> int"

definition UnixNano :: "time \<Rightarrow> int" where
  \<comment> \<open>nanoseconds since 1970-01-01, which is 62135596800 seconds after the zero instant\<close>
  "UnixNano t = t - 62135596800 * Second"

definition expired :: "time \<Rightarrow> int \<Rightarrow> bool" where
  "expired now e = (e > 0 \<and> UnixNano now > e)"

definition cache_Set :: "string \<Rightarrow> 'v \<Rightarrow> duration \<Rightarrow> time \<Rightarrow> 'v gocache \<Rightarrow> 'v gocache" where
  \<comment> \<open>every call in the sources passes \<open>time.Hour\<close>; the duration 0, which stands for the
      default of the cache, does not occur\<close>
  "cache_Set k x d now c = c(k \<mapsto> (x, if d > 0 then UnixNano (now + d) else 0))"

definition cache_Get :: "string \<Rightarrow> time \<Rightarrow> 'v gocache \<Rightarrow> 'v option" where
  "cache_Get k now c =
     (case c k of
        None \<Rightarrow> None
      | Some (x, e) \<Rightarrow> if expired now e then None else Some x)"




section \<open>Deadline manager\<close>

text \<open>
  One call of a method of the manager is taken at one reading \<open>now\<close> of the clock, used
  for the cache and for the fallback of \<open>ParsePodDeadline\<close> alike.
\<close>

record deadlineManager =
  podDeadlines :: "time gocache"

definition GetPodDeadline ::
  "(string \<Rightarrow> duration option) \<Rightarrow> time \<Rightarrow> deadlineManager \<Rightarrow> Pod \<Rightarrow> time" where
  "GetPodDeadline pd now m pod =
     (case cache_Get (UID pod) now (podDeadlines m) of
        None \<Rightarrow> ParsePodDeadline pd now pod
      | Some ddl \<Rightarrow> ddl)"

definition AddPodDeadline ::
  "(string \<Rightarrow> duration option) \<Rightarrow> time \<Rightarrow> Pod \<Rightarrow> deadlineManager \<Rightarrow> time \<times> deadlineManager" where
  "AddPodDeadline pd now pod m =
     (let ddl = GetPodDeadline pd now m pod in
      (ddl, m\<lparr>podDeadlines := cache_Set (UID pod) ddl Hour now (podDeadlines m)\<rparr>))"


section \<open>Queue sort of the EDFPreemptiveScheduling profile\<close>

text \<open>
  \<open>Less\<close> asks the deadline manager for each pod's deadline with \<open>AddPodDeadline\<close>, which
  stores what it returns: the result comes with the manager's new state. \<open>now1\<close> and
  \<open>now2\<close> are the clock readings of the two calls.
\<close>

definition EDF_Less ::
  "(string \<Rightarrow> duration option) \<Rightarrow> time \<Rightarrow> time \<Rightarrow> Pod \<Rightarrow> Pod \<Rightarrow> deadlineManager
     \<Rightarrow> bool \<times> deadlineManager" where
  "EDF_Less pd now1 now2 pod1 pod2 m =
     (let prio1 = PodPriority pod1; prio2 = PodPriority pod2 in
      if prio1 \<noteq> prio2 then (prio1 > prio2, m)
      else
        let (ddl1, m1) = AddPodDeadline pd now1 pod1 m;
            (ddl2, m2) = AddPodDeadline pd now2 pod2 m1
        in (if ddl1 = ddl2 then GetNamespacedName pod1 < GetNamespacedName pod2
            else ddl1 < ddl2, m2))"

section \<open>The host\<close>

text \<open>
  What the managers and the plug-in consume from the scheduling framework and from the
  API machinery is not part of the sources; it is the record \<open>host\<close> of parameters:
  \<^item> \<open>ParseDuration\<close>: \<open>time.ParseDuration\<close>, \<open>None\<close> for an error;
  \<^item> \<open>podLister ns name\<close>: \<open>podLister.Pods(ns).Get(name)\<close>, \<open>None\<close> for an error (the
    lister then returns a nil pod);
  \<^item> \<open>nodeLister name\<close>: \<open>nodeLister.Get(name)\<close>;
  \<^item> \<open>rejects store pod\<close>: whether the API server answers the update of \<open>pod\<close> with an
    error;
  \<^item> \<open>Fits pod pods node\<close>: \<open>noderesources.Fits\<close> of \<open>pod\<close> on the node info built by
    \<open>framework.NewNodeInfo(pods...)\<close> and \<open>SetNode(node)\<close>;
  \<^item> \<open>NominatedPodsForNode\<close>, \<open>GetWaitingPod\<close> (whether it returns a waiting pod) and
    \<open>NodeInfos_List\<close> (the snapshot's \<open>NodeInfos().List()\<close>) of the framework handle.
\<close>

record Node =
  Node_Name :: string

record NodeInfo =
  NI_Node :: Node
  NI_Pods :: "Pod list"

record InsufficientResource =
  ResourceName :: string
  Reason :: string

type_synonym apiserver = "string \<times> string \<rightharpoonup> Pod"

record host =
  ParseDuration :: "string \<Rightarrow> duration option"
  podLister :: "string \<Rightarrow> string \<Rightarrow> Pod option"
  nodeLister :: "string \<Rightarrow> Node option"
  rejects :: "apiserver \<Rightarrow> Pod \<Rightarrow> bool"
  Fits :: "Pod \<Rightarrow> Pod list \<Rightarrow> Node \<Rightarrow> InsufficientResource list"
  NominatedPodsForNode :: "string \<Rightarrow> Pod list"
  GetWaitingPod :: "string \<Rightarrow> bool"
  NodeInfos_List :: "NodeInfo list option"

datatype error =
  ErrPodNotFound | ErrPodNotPaused | ErrGetNode | ErrGetLatestPod | ErrPausePod
  | ErrUpdate | ErrListNodes

text \<open>
  A Go function that may panic returns an \<open>outcome\<close>. A panic ends the call without a
  result, so \<open>Panic\<close> carries none.
\<close>

datatype 'a outcome = Panic | Return 'a

section \<open>Preemption manager\<close>

record Candidate =
  C_NodeName :: string
  C_Pod :: Pod

record preemptionManager =
  pausedPods :: "string gocache"
  pm_deadlineManager :: deadlineManager

definition IsPodMarkedPaused :: "Pod \<Rightarrow> bool" where
  "IsPodMarkedPaused pod =
     (case annotation pod AnnotationKeyPausePod of
        None \<Rightarrow> False
      | Some val \<Rightarrow> val = ''true'')"

definition AddPausedPod ::
  "host \<Rightarrow> time \<Rightarrow> Candidate \<Rightarrow> preemptionManager \<Rightarrow> preemptionManager" where
  "AddPausedPod h now candidate m =
     m\<lparr>pausedPods :=
         cache_Set (toCacheKey (C_Pod candidate)) (C_NodeName candidate) Hour now (pausedPods m),
       pm_deadlineManager :=
         snd (AddPodDeadline (ParseDuration h) now (C_Pod candidate) (pm_deadlineManager m))\<rparr>"




definition markPodToPaused :: "Pod \<Rightarrow> Pod option" where
  "markPodToPaused pod =
     (case Annotations pod of
        None \<Rightarrow> None
      | Some annotations \<Rightarrow>
          Some (pod\<lparr>Annotations := Some (annotations(AnnotationKeyPausePod \<mapsto> ''true''))\<rparr>))"

definition updatePod :: "host \<Rightarrow> Pod \<Rightarrow> apiserver \<Rightarrow> error option \<times> apiserver" where
  \<comment> \<open>\<open>cs.CoreV1().Pods(pod.Namespace).Update(ctx, pod, ...)\<close>: an accepted update
      replaces the stored pod of that namespace and name\<close>
  "updatePod h pod api =
     (if rejects h api pod then (Some ErrUpdate, api)
      else (None, api((Namespace pod, Name pod) \<mapsto> pod)))"



definition PauseCandidate ::
  "host \<Rightarrow> time \<Rightarrow> Candidate \<Rightarrow> preemptionManager \<Rightarrow> apiserver
     \<Rightarrow> (error option \<times> preemptionManager \<times> apiserver) outcome" where
  "PauseCandidate h now candidate m api =
     (case podLister h (Namespace (C_Pod candidate)) (Name (C_Pod candidate)) of
        None \<Rightarrow> Return (Some ErrGetLatestPod, m, api)
      | Some latestPod \<Rightarrow>
          (case markPodToPaused latestPod of
             None \<Rightarrow> Panic
           | Some latestPod' \<Rightarrow>
               (case updatePod h latestPod' api of
                  (Some err, api') \<Rightarrow> Return (Some ErrPausePod, m, api')
                | (None, api') \<Rightarrow> Return (None, AddPausedPod h now candidate m, api'))))"

section \<open>The scheduling plug-in\<close>

datatype Code = Success | Error | Unschedulable | UnschedulableAndUnresolvable | Wait | Skip

text \<open>
  A \<open>framework.Status\<close> is its code with its reasons; the nil status has the code
  \<open>Success\<close>. The plug-in is built against a preemption manager with two methods that the
  manager of the sources does not have, \<open>GetPausedCandidateOnNode\<close> and \<open>ResumeCandidate\<close>.
  They are parameters, over any state \<open>'pm\<close> of that manager: the record \<open>Manager\<close>.
  A hook is taken at one clock reading \<open>now\<close>, and \<open>dm\<close> is the state of the plug-in's own
  deadline manager.
\<close>

type_synonym Status = "Code \<times> string list"

fun errorText :: "error \<Rightarrow> string" where
  "errorText ErrPodNotFound = ''pod not found in cache''"
| "errorText ErrPodNotPaused = ''pod is not paused''"
| "errorText ErrGetNode = ''failed to get node''"
| "errorText ErrGetLatestPod = ''failed to get latest pod''"
| "errorText ErrPausePod = ''failed to pause pod''"
| "errorText ErrUpdate = ''update failed''"
| "errorText ErrListNodes = ''failed to list nodes''"

definition AsStatus :: "error \<Rightarrow> Status" where
  \<comment> \<open>\<open>framework.AsStatus(err)\<close>: the code \<open>Error\<close> with the text of the error\<close>
  "AsStatus err = (Error, [errorText err])"

record 'pm Manager =
  GetPausedCandidateOnNode :: "string \<Rightarrow> 'pm \<Rightarrow> Candidate option \<times> 'pm"
  ResumeCandidate :: "Candidate \<Rightarrow> 'pm \<Rightarrow> (error + Candidate) \<times> 'pm"

definition PreFilter ::
  "host \<Rightarrow> 'pm Manager \<Rightarrow> time \<Rightarrow> Pod \<Rightarrow> deadlineManager \<Rightarrow> 'pm
     \<Rightarrow> (Status \<times> deadlineManager \<times> 'pm) outcome" where
  "PreFilter h M now pod0 dm pm =
     (let latestPod = podLister h (Namespace pod0) (Name pod0);
          pod = (case latestPod of Some lp \<Rightarrow> lp | None \<Rightarrow> pod0)
      in
      if IsPodMarkedPaused pod then
        if GetWaitingPod h (UID pod) \<or> Phase pod = PodPending then Return ((Skip, []), dm, pm)
        else
          let (c, pm1) = GetPausedCandidateOnNode M (NodeName pod) pm;
              candidate = (case c of
                             None \<Rightarrow> \<lparr>C_NodeName = NodeName pod, C_Pod = pod\<rparr>
                           | Some c' \<Rightarrow> c')
          in
          case latestPod of
            None \<Rightarrow> Panic
          | Some lp \<Rightarrow>
              if UID (C_Pod candidate) \<noteq> UID lp then
                Return ((UnschedulableAndUnresolvable,
                         [''rejected as another paused pod has higher priority'']), dm, pm1)
              else
                (case ResumeCandidate M candidate pm1 of
                   (Inl err, pm2) \<Rightarrow>
                     if err = ErrPodNotPaused then Return ((Skip, []), dm, pm2)
                     else Return ((UnschedulableAndUnresolvable, []), dm, pm2)
                 | (Inr c', pm2) \<Rightarrow>
                     Return ((Skip, [''skipped because pod is resumed successfully'']), dm, pm2))
      else Return ((Success, []), snd (AddPodDeadline (ParseDuration h) now pod dm), pm))"


fun selectCandidate_loop ::
  "(Pod \<Rightarrow> time) \<Rightarrow> Candidate list \<Rightarrow> time \<times> Candidate \<Rightarrow> time \<times> Candidate" where
  "selectCandidate_loop ddlOf [] (maxDDL, bestCandidate) = (maxDDL, bestCandidate)"
| "selectCandidate_loop ddlOf (c # cs) (maxDDL, bestCandidate) =
     (let ddl = ddlOf (C_Pod c) in
      if ddl > maxDDL then selectCandidate_loop ddlOf cs (ddl, c)
      else selectCandidate_loop ddlOf cs (maxDDL, bestCandidate))"

definition selectCandidate ::
  "host \<Rightarrow> time \<Rightarrow> deadlineManager \<Rightarrow> Candidate list \<Rightarrow> Candidate option" where
  "selectCandidate h now dm candidates =
     (case candidates of
        [] \<Rightarrow> None
      | c0 # _ \<Rightarrow>
          let maxDDL = GetPodDeadline (ParseDuration h) now dm (C_Pod c0);
              bestCandidate = c0
          in Some (snd (selectCandidate_loop (GetPodDeadline (ParseDuration h) now dm)
                          candidates (maxDDL, bestCandidate))))"

definition latestOf :: "host \<Rightarrow> Pod \<Rightarrow> Pod" where
  \<comment> \<open>the pod of the lister for a resident, the resident itself when the lister fails\<close>
  "latestOf h podInfo =
     (case podLister h (Namespace podInfo) (Name podInfo) of
        None \<Rightarrow> podInfo
      | Some q \<Rightarrow> q)"

fun findCandidate_loop ::
  "host \<Rightarrow> (Pod \<Rightarrow> time) \<Rightarrow> Pod \<Rightarrow> Pod list \<Rightarrow> time \<times> Pod option \<times> Pod list
     \<Rightarrow> time \<times> Pod option \<times> Pod list" where
  "findCandidate_loop h ddlOf pod [] st = st"
| "findCandidate_loop h ddlOf pod (podInfo # rest) (maxDDL, candidatePod, unpausedPods) =
     (let p = latestOf h podInfo in
      if UID p = UID pod then
        findCandidate_loop h ddlOf pod rest (maxDDL, candidatePod, unpausedPods)
      else if Phase p \<noteq> PodPaused then
        let unpausedPods' = unpausedPods @ [p];
            ddl = ddlOf p
        in if ddl > maxDDL then findCandidate_loop h ddlOf pod rest (ddl, Some p, unpausedPods')
           else findCandidate_loop h ddlOf pod rest (maxDDL, candidatePod, unpausedPods')
      else findCandidate_loop h ddlOf pod rest (maxDDL, candidatePod, unpausedPods))"

definition findCandidateOnNode ::
  "host \<Rightarrow> time \<Rightarrow> deadlineManager \<Rightarrow> Pod \<Rightarrow> NodeInfo \<Rightarrow> Pod option" where
  "findCandidateOnNode h now dm pod nodeInfo =
     (let podDDL = GetPodDeadline (ParseDuration h) now dm pod;
          (maxDDL, candidatePod, unpausedPods) =
             findCandidate_loop h (GetPodDeadline (ParseDuration h) now dm) pod
               (NI_Pods nodeInfo @ NominatedPodsForNode h (Node_Name (NI_Node nodeInfo)))
               (podDDL, None, [])
      in
      case candidatePod of
        None \<Rightarrow> None
      | Some cp \<Rightarrow>
          let podsExcludeCandidate = filter (\<lambda>p. UID p \<noteq> UID cp) unpausedPods;
              insufficientResources = Fits h pod podsExcludeCandidate (NI_Node nodeInfo)
          in if length insufficientResources > 0 then None else Some cp)"

text \<open>
  \<open>PostFilter\<close> drops the first result of \<open>PauseCandidate\<close>; the \<open>PauseCandidate\<close> of the
  sources returns the error alone. A node without an entry in the status map has the
  nil status, whose code is \<open>Success\<close>.
\<close>

definition collectCandidates ::
  "host \<Rightarrow> time \<Rightarrow> deadlineManager \<Rightarrow> Pod \<Rightarrow> (string \<rightharpoonup> Status) \<Rightarrow> NodeInfo list
     \<Rightarrow> Candidate list" where
  "collectCandidates h now dm pod filteredNodeStatusMap allNode =
     concat (map (\<lambda>nodeInfo.
        if (case filteredNodeStatusMap (Node_Name (NI_Node nodeInfo)) of
              None \<Rightarrow> Success
            | Some st \<Rightarrow> fst st) = UnschedulableAndUnresolvable
        then []
        else (case findCandidateOnNode h now dm pod nodeInfo of
                None \<Rightarrow> []
              | Some candidate \<Rightarrow>
                  [\<lparr>C_NodeName = Node_Name (NI_Node nodeInfo), C_Pod = candidate\<rparr>])) allNode)"

definition PostFilter ::
  "host \<Rightarrow> time \<Rightarrow> Pod \<Rightarrow> (string \<rightharpoonup> Status) \<Rightarrow> deadlineManager \<Rightarrow> preemptionManager
     \<Rightarrow> apiserver \<Rightarrow> ((string option \<times> Status) \<times> preemptionManager \<times> apiserver) outcome" where
  "PostFilter h now pod filteredNodeStatusMap dm m api =
     (case NodeInfos_List h of
        None \<Rightarrow> Return ((None, AsStatus ErrListNodes), m, api)
      | Some allNode \<Rightarrow>
          let candidates = collectCandidates h now dm pod filteredNodeStatusMap allNode in
          case selectCandidate h now dm candidates of
            None \<Rightarrow>
              Return ((None, (UnschedulableAndUnresolvable,
                              [''no preemptible candidates found''])), m, api)
          | Some candidate \<Rightarrow>
              (case PauseCandidate h now candidate m api of
                 Panic \<Rightarrow> Panic
               | Return (Some err, m', api') \<Rightarrow> Return ((None, AsStatus err), m', api')
               | Return (None, m', api') \<Rightarrow>
                   Return ((Some (C_NodeName candidate), (Success, [])), m', api')))"

section \<open>Concrete inputs\<close>

text \<open>
  A duration parser that reads four strings and fails on every other, an instant in the
  year 2025, and pods with and without a creation timestamp.
\<close>

definition pd0 :: "string \<Rightarrow> duration option" where
  "pd0 s =
     (if s = ''10s'' then Some (10 * Second)
      else if s = ''20s'' then Some (20 * Second)
      else if s = ''1h'' then Some Hour
      else if s = ''-5s'' then Some (- 5 * Second)
      else None)"

definition T0 :: time where
  "T0 = 63900000000 * Second"

definition pod_unset_a :: Pod where
  "pod_unset_a = \<lparr>Namespace = ''ns'', Name = ''a'', UID = ''uid-a'', Annotations = None,
     CreationTimestamp = 0, Priority = None, NodeName = [], Phase = PodPending\<rparr>"

definition pod_unset_b :: Pod where
  "pod_unset_b = \<lparr>Namespace = ''ns'', Name = ''b'', UID = ''uid-b'', Annotations = None,
     CreationTimestamp = 0, Priority = None, NodeName = [], Phase = PodPending\<rparr>"

definition pod_high :: Pod where
  "pod_high = \<lparr>Namespace = ''ns'', Name = ''a'', UID = ''uid-1'', Annotations = None,
     CreationTimestamp = T0, Priority = Some 100, NodeName = [], Phase = PodPending\<rparr>"

definition pod_low :: Pod where
  "pod_low = \<lparr>Namespace = ''ns'', Name = ''a'', UID = ''uid-2'', Annotations = None,
     CreationTimestamp = T0, Priority = Some 10, NodeName = [], Phase = PodPending\<rparr>"

definition pod_10s :: Pod where
  "pod_10s = \<lparr>Namespace = ''ns'', Name = ''p1'', UID = ''uid-3'',
     Annotations = Some [simpleddl_AnnotationKeyDDL \<mapsto> ''10s'', AnnotationKeyDDL \<mapsto> ''10s''],
     CreationTimestamp = T0, Priority = Some 10, NodeName = [], Phase = PodPending\<rparr>"

definition pod_20s :: Pod where
  "pod_20s = \<lparr>Namespace = ''ns'', Name = ''p2'', UID = ''uid-4'',
     Annotations = Some [simpleddl_AnnotationKeyDDL \<mapsto> ''20s'', AnnotationKeyDDL \<mapsto> ''20s''],
     CreationTimestamp = T0, Priority = Some 10, NodeName = [], Phase = PodPending\<rparr>"

definition pod_slash :: Pod where
  "pod_slash = \<lparr>Namespace = ''ns'', Name = ''a/b'', UID = ''uid-5'', Annotations = None,
     CreationTimestamp = T0, Priority = None, NodeName = [], Phase = PodPending\<rparr>"

definition dm_empty :: deadlineManager where
  "dm_empty = \<lparr>podDeadlines = Map.empty\<rparr>"

text \<open>
  A node with room for one pod: a running resident \<open>pod_R\<close> that carries
  \<open>preemptible="false"\<close> and a deadline one hour after its creation, and an arriving pod
  \<open>pod_W\<close> with a deadline ten seconds after its creation.
\<close>

definition pod_R :: Pod where
  "pod_R = \<lparr>Namespace = ''ns'', Name = ''resident'', UID = ''uid-r'',
     Annotations = Some [AnnotationKeyDDL \<mapsto> ''1h'', AnnotationKeyPreemptible \<mapsto> ''false''],
     CreationTimestamp = T0, Priority = None, NodeName = ''node1'', Phase = PodRunning\<rparr>"

definition pod_W :: Pod where
  "pod_W = \<lparr>Namespace = ''ns'', Name = ''arriving'', UID = ''uid-w'',
     Annotations = Some [AnnotationKeyDDL \<mapsto> ''10s''],
     CreationTimestamp = T0, Priority = None, NodeName = [], Phase = PodPending\<rparr>"

definition node1 :: NodeInfo where
  "node1 = \<lparr>NI_Node = \<lparr>Node_Name = ''node1''\<rparr>, NI_Pods = [pod_R]\<rparr>"

definition host1 :: host where
  "host1 = \<lparr>ParseDuration = pd0,
     podLister = (\<lambda>ns name. if ns = ''ns'' \<and> name = ''resident'' then Some pod_R
                            else if ns = ''ns'' \<and> name = ''arriving'' then Some pod_W
                            else None),
     nodeLister = (\<lambda>name. if name = ''node1'' then Some \<lparr>Node_Name = ''node1''\<rparr> else None),
     rejects = (\<lambda>api pod. False),
     Fits = (\<lambda>pod pods node. if pods = [] then []
                              else [\<lparr>ResourceName = ''cpu'', Reason = ''Insufficient cpu''\<rparr>]),
     NominatedPodsForNode = (\<lambda>name. []),
     GetWaitingPod = (\<lambda>uid. False),
     NodeInfos_List = Some [node1]\<rparr>"

text \<open>A host like \<open>host1\<close> whose API server refuses every update.\<close>

definition host_refusing :: host where
  "host_refusing = host1\<lparr>rejects := (\<lambda>api pod. True)\<rparr>"

text \<open>A host like \<open>host1\<close> whose pod lister finds no pod.\<close>

definition host_blind :: host where
  "host_blind = host1\<lparr>podLister := (\<lambda>ns name. None)\<rparr>"

definition pm_empty :: preemptionManager where
  "pm_empty = \<lparr>pausedPods = Map.empty, pm_deadlineManager = dm_empty\<rparr>"

definition api_empty :: apiserver where
  "api_empty = Map.empty"

definition cand_R :: Candidate where
  "cand_R = \<lparr>C_NodeName = ''node1'', C_Pod = pod_R\<rparr>"

definition pod_R_paused :: Pod where
  "pod_R_paused = pod_R\<lparr>Annotations :=
     Some [AnnotationKeyDDL \<mapsto> ''1h'', AnnotationKeyPreemptible \<mapsto> ''false'',
           AnnotationKeyPausePod \<mapsto> ''true'']\<rparr>"

section \<open>Entries that a resume passes over\<close>


text \<open>
  The state of the preemption manager after \<open>pod_R\<close> has been paused on \<open>node1\<close>, and
  \<open>pod_R\<close> as \<open>markPodToResume\<close> leaves it.
\<close>

definition pm_paused :: preemptionManager where
  "pm_paused = AddPausedPod host1 T0 cand_R pm_empty"



section \<open>The residents that a preemption considers\<close>

text \<open>
  \<open>unpausedResidents\<close> lists what \<open>findCandidateOnNode\<close> collects in \<open>unpausedPods\<close>: the
  pods of the node and those nominated for it, each as the lister has it, without the
  pod being scheduled and without the pods in phase paused.
\<close>

definition unpausedResidents :: "host \<Rightarrow> Pod \<Rightarrow> NodeInfo \<Rightarrow> Pod list" where
  "unpausedResidents h pod nodeInfo =
     filter (\<lambda>p. UID p \<noteq> UID pod \<and> Phase p \<noteq> PodPaused)
       (map (latestOf h)
          (NI_Pods nodeInfo @ NominatedPodsForNode h (Node_Name (NI_Node nodeInfo))))"

section \<open>The resume check of the filter\<close>


text \<open>
  Two preemption managers without state: one that knows no paused pod, and one that
  holds \<open>pod_R\<close> as paused on \<open>node1\<close> and resumes whatever it is asked to.
\<close>

definition M_none :: "unit Manager" where
  "M_none = \<lparr>GetPausedCandidateOnNode = (\<lambda>name pm. (None, pm)),
     ResumeCandidate = (\<lambda>c pm. (Inl ErrPodNotPaused, pm))\<rparr>"

definition M_one :: "unit Manager" where
  "M_one = \<lparr>GetPausedCandidateOnNode =
       (\<lambda>name pm. (if name = ''node1'' then Some cand_R else None, pm)),
     ResumeCandidate = (\<lambda>c pm. (Inr c, pm))\<rparr>"

definition node2 :: NodeInfo where
  "node2 = \<lparr>NI_Node = \<lparr>Node_Name = ''node2''\<rparr>, NI_Pods = []\<rparr>"


section \<open>The deadline ladder\<close>

lemmas duration_defs = Second_def Minute_def Hour_def defaultDDLRelative_def
  simpleddl_defaultDDLRelative_def

lemmas key_defs = AnnotationKeyPrefix_def AnnotationKeyDDL_def AnnotationKeyPausePod_def
  AnnotationKeyPreemptible_def simpleddl_AnnotationKeyDDL_def

text \<open>
  C3. The absolute deadline of a pod follows the fallback ladder, in this order: without
  a creation timestamp it is the clock reading plus the default relative deadline;
  otherwise, when the ddl annotation is absent, is not a duration or is negative, it is
  the creation time plus the default; otherwise it is the creation time plus the
  annotated duration. The default is 30 days (2592000000000000 ns) for
  \<open>ParsePodDeadline\<close> of the preemptive profile and 10 minutes (600000000000 ns) for
  \<open>parseDDL\<close> of the simple profile.
\<close>

theorem deadline_fallback_ladder:
  "ParsePodDeadline pd now pod =
     (if CreationTimestamp pod = 0 then now + 2592000000000000
      else case annotation pod ''rt-preemptive.scheduling.x-k8s.io/ddl'' of
             None \<Rightarrow> CreationTimestamp pod + 2592000000000000
           | Some s \<Rightarrow>
               (case pd s of
                  None \<Rightarrow> CreationTimestamp pod + 2592000000000000
                | Some d \<Rightarrow>
                    if d < 0 then CreationTimestamp pod + 2592000000000000
                    else CreationTimestamp pod + d))
   \<and> parseDDL pd now creationTime pod =
     (if creationTime = 0 then now + 600000000000
      else case annotation pod ''simpleddl.scheduling.x-k8s.io/ddl'' of
             None \<Rightarrow> creationTime + 600000000000
           | Some s \<Rightarrow>
               (case pd s of
                  None \<Rightarrow> creationTime + 600000000000
                | Some d \<Rightarrow>
                    if d < 0 then creationTime + 600000000000
                    else creationTime + d))"
  by (simp add: ParsePodDeadline_def parseDDL_def Let_def duration_defs key_defs
      split: option.splits)

section \<open>Cache keys\<close>

lemma length_Split: "length (Split sep s) = Suc (length (filter (\<lambda>c. c = sep) s))"
  by (induction s) (auto split: list.splits)

lemma Split_without_sep: "sep \<notin> set s \<Longrightarrow> Split sep s = [s]"
  by (induction s) auto

lemma Split_at_first_sep: "sep \<notin> set a \<Longrightarrow> Split sep (a @ sep # b) = a # Split sep b"
  by (induction a) auto

text \<open>
  C10. For a pod whose namespace and name contain no \<open>/\<close>, parsing its cache key gives
  back the namespace and the name; for a pod whose name contains a \<open>/\<close>, parsing its
  cache key gives the empty namespace and the empty name.
\<close>

theorem cache_key_round_trip:
  "(CHR ''/'' \<notin> set (Namespace p) \<and> CHR ''/'' \<notin> set (Name p) \<longrightarrow>
      parseCacheKey (toCacheKey p) = (Namespace p, Name p))
   \<and> (CHR ''/'' \<in> set (Name p) \<longrightarrow> parseCacheKey (toCacheKey p) = ([], []))"
proof (intro conjI impI)
  assume "CHR ''/'' \<notin> set (Namespace p) \<and> CHR ''/'' \<notin> set (Name p)"
  then show "parseCacheKey (toCacheKey p) = (Namespace p, Name p)"
    by (simp add: parseCacheKey_def toCacheKey_def Split_at_first_sep Split_without_sep)
next
  assume "CHR ''/'' \<in> set (Name p)"
  then have "filter (\<lambda>c. c = CHR ''/'') (Name p) \<noteq> []"
    by (simp add: filter_empty_conv)
  then have "1 \<le> length (filter (\<lambda>c. c = CHR ''/'') (Name p))"
    by (cases "filter (\<lambda>c. c = CHR ''/'') (Name p)") auto
  then have "3 \<le> length (Split (CHR ''/'') (toCacheKey p))"
    by (simp add: length_Split toCacheKey_def)
  then show "parseCacheKey (toCacheKey p) = ([], [])"
    by (simp add: parseCacheKey_def)
qed

theorem cache_key_round_trip_witness:
  "CHR ''/'' \<notin> set (Namespace pod_10s) \<and> CHR ''/'' \<notin> set (Name pod_10s)
   \<and> parseCacheKey (toCacheKey pod_10s) = (''ns'', ''p1'')
   \<and> CHR ''/'' \<in> set (Name pod_slash)
   \<and> parseCacheKey (toCacheKey pod_slash) = ([], [])"
  using cache_key_round_trip [of pod_10s] cache_key_round_trip [of pod_slash]
  by (simp add: pod_10s_def pod_slash_def)

section \<open>Padding of the feature vector\<close>

lemma pad_loop_replicate: "pad_loop i msize m = m @ replicate (nat (msize - i)) 0"
proof (induction i msize m rule: pad_loop.induct)
  case (1 i msize m)
  show ?case
  proof (cases "i < msize")
    case True
    then have "nat (msize - i) = Suc (nat (msize - (i + 1)))"
      by simp
    with 1 True show ?thesis
      by (simp add: replicate_append_same pad_loop.simps [of i])
  next
    case False
    then show ?thesis
      by (simp add: pad_loop.simps [of i])
  qed
qed

lemma padMetrics_eq:
  "padMetrics msize metrics =
     take 4 metrics @ replicate (nat (msize - int (length metrics) + 1)) 0"
proof -
  have "take (if length metrics < 4 then length metrics else 4) metrics = take 4 metrics"
    by simp
  moreover have "msize - (int (length metrics) - 1) = msize - int (length metrics) + 1"
    by simp
  ultimately show ?thesis
    by (simp add: padMetrics_def pad_loop_replicate del: take_all_iff)
qed

lemma length_padMetrics:
  "length (padMetrics msize metrics) =
     min 4 (length metrics) + nat (msize - int (length metrics) + 1)"
  by (simp add: padMetrics_eq min_def)

text \<open>
  C4. \<open>padMetrics\<close> is to return exactly \<open>metricSize\<close> (10) elements. For the six features
  1, 2, 3, 4, 5, 6 it returns nine: the first four followed by five zeros, because the
  padding loop counts from the length of the input less one and not from the number of
  elements kept. For an empty input it returns eleven zeros.
\<close>

theorem padMetrics_wrong_length:
  "padMetrics 10 [1, 2, 3, 4, 5, 6] = [1, 2, 3, 4, 0, 0, 0, 0, 0]
   \<and> length (padMetrics 10 [1, 2, 3, 4, 5, 6]) = 9
   \<and> length (padMetrics 10 []) = 11"
  by (simp add: padMetrics_eq eval_nat_numeral)

section \<open>Queue sort\<close>

lemma cache_Get_Set_same:
  "t' \<le> t + Hour \<Longrightarrow> cache_Get k t' (cache_Set k x Hour t c) = Some x"
  by (simp add: cache_Get_def cache_Set_def expired_def UnixNano_def duration_defs)

lemma cache_Get_Set_other:
  "k' \<noteq> k \<Longrightarrow> cache_Get k' t' (cache_Set k x d t c) = cache_Get k' t' c"
  by (simp add: cache_Get_def cache_Set_def)

lemma fst_AddPodDeadline: "fst (AddPodDeadline pd t p m) = GetPodDeadline pd t m p"
  by (simp add: AddPodDeadline_def Let_def)

lemma GetPodDeadline_Add_same:
  "t' \<le> t + Hour \<Longrightarrow> UID q = UID p \<Longrightarrow>
   GetPodDeadline pd t' (snd (AddPodDeadline pd t p m)) q = GetPodDeadline pd t m p"
  by (simp add: GetPodDeadline_def AddPodDeadline_def Let_def cache_Get_Set_same)

lemma GetPodDeadline_Add_other:
  "UID q \<noteq> UID p \<Longrightarrow>
   GetPodDeadline pd t' (snd (AddPodDeadline pd t p m)) q = GetPodDeadline pd t' m q"
  by (simp add: GetPodDeadline_def AddPodDeadline_def Let_def cache_Get_Set_other)

lemma EDF_Less_unfold:
  "EDF_Less pd t1 t2 p1 p2 m =
    (if PodPriority p1 \<noteq> PodPriority p2 then (PodPriority p1 > PodPriority p2, m)
     else let m1 = snd (AddPodDeadline pd t1 p1 m); d1 = GetPodDeadline pd t1 m p1;
              d2 = GetPodDeadline pd t2 m1 p2; m2 = snd (AddPodDeadline pd t2 p2 m1) in
       (if d1 = d2 then GetNamespacedName p1 < GetNamespacedName p2 else d1 < d2, m2))"
  by (simp add: EDF_Less_def Let_def split_beta fst_AddPodDeadline)

text \<open>
  Within an hour of the first comparison, the second comparison reads from the cache the
  deadlines that the first one stored.
\<close>

lemma EDF_deadlines_stable:
  fixes pd :: "string \<Rightarrow> duration option" and p1 p2 :: Pod and m :: deadlineManager
    and t1 t2 t3 t4 :: time
  assumes "t1 \<le> t2" "t2 \<le> t3" "t3 \<le> t4" "t4 \<le> t1 + Hour"
  defines "m1 \<equiv> snd (AddPodDeadline pd t1 p1 m)"
  defines "m2 \<equiv> snd (AddPodDeadline pd t2 p2 m1)"
  defines "m3 \<equiv> snd (AddPodDeadline pd t3 p2 m2)"
  shows "GetPodDeadline pd t3 m2 p2 = GetPodDeadline pd t2 m1 p2"
    and "GetPodDeadline pd t4 m3 p1 = GetPodDeadline pd t1 m p1"
    and "UID p1 = UID p2 \<Longrightarrow> GetPodDeadline pd t2 m1 p2 = GetPodDeadline pd t1 m p1"
proof -
  have H: "0 \<le> Hour"
    by (simp add: duration_defs)
  show a: "GetPodDeadline pd t3 m2 p2 = GetPodDeadline pd t2 m1 p2"
    unfolding m2_def using assms(1-4) H by (simp add: GetPodDeadline_Add_same)
  show b: "GetPodDeadline pd t2 m1 p2 = GetPodDeadline pd t1 m p1" if "UID p1 = UID p2"
    unfolding m1_def using assms(1-4) H that by (simp add: GetPodDeadline_Add_same)
  show "GetPodDeadline pd t4 m3 p1 = GetPodDeadline pd t1 m p1"
  proof (cases "UID p1 = UID p2")
    case True
    have "GetPodDeadline pd t4 m3 p1 = GetPodDeadline pd t3 m2 p2"
      unfolding m3_def using assms(1-4) H True by (simp add: GetPodDeadline_Add_same)
    also have "\<dots> = GetPodDeadline pd t2 m1 p2"
      by (rule a)
    also have "\<dots> = GetPodDeadline pd t1 m p1"
      by (rule b [OF True])
    finally show ?thesis .
  next
    case False
    have "GetPodDeadline pd t4 m3 p1 = GetPodDeadline pd t4 m2 p1"
      unfolding m3_def using False by (simp add: GetPodDeadline_Add_other)
    also have "\<dots> = GetPodDeadline pd t4 m1 p1"
      unfolding m2_def using False by (simp add: GetPodDeadline_Add_other)
    also have "\<dots> = GetPodDeadline pd t1 m p1"
      unfolding m1_def using assms(1-4) H by (simp add: GetPodDeadline_Add_same)
    finally show ?thesis .
  qed
qed

lemma SimpleDDL_Less_pair:
  assumes "CreationTimestamp p1 \<noteq> 0" "CreationTimestamp p2 \<noteq> 0"
  shows "\<not> (SimpleDDL_Less pd t1 t2 p1 p2 \<and> SimpleDDL_Less pd t3 t4 p2 p1)"
    and "SimpleDDL_Less pd t1 t2 p1 p2 \<or> SimpleDDL_Less pd t3 t4 p2 p1
         \<or> GetNamespacedName p1 = GetNamespacedName p2"
    and "p1 = p2 \<Longrightarrow> \<not> SimpleDDL_Less pd t1 t2 p1 p2"
  using assms by (auto simp: SimpleDDL_Less_def Let_def parseDDL_def split: if_splits)

lemma EDF_Less_pair:
  assumes "t1 \<le> t2" "t2 \<le> t3" "t3 \<le> t4" "t4 \<le> t1 + Hour"
    and "EDF_Less pd t1 t2 p1 p2 m = (b, m')" and "EDF_Less pd t3 t4 p2 p1 m' = (b', m'')"
  shows "\<not> (b \<and> b')"
    and "b \<or> b' \<or> GetNamespacedName p1 = GetNamespacedName p2"
    and "p1 = p2 \<Longrightarrow> \<not> b"
  using EDF_deadlines_stable [OF assms(1-4), where pd = pd and ?p1.0 = p1 and ?p2.0 = p2 and m = m]
    assms(5,6)
  by (auto simp: EDF_Less_unfold Let_def split: if_splits)

text \<open>
  C1, as amended. Where the deadlines that \<open>Less\<close> compares do not move between the two
  comparisons (in the simple profile: both pods have a creation timestamp; in the
  preemptive profile: the second comparison follows the first on the state it left, all
  four clock readings within one hour, so that the cached deadlines are read again),
  \<open>Less\<close> is never true for both \<open>(p1, p2)\<close> and \<open>(p2, p1)\<close>, at least one of
  \<open>Less(p1, p2)\<close>, \<open>Less(p2, p1)\<close> and \<open>key(p1) = key(p2)\<close> holds, and \<open>Less(p, p)\<close> is
  false. Equal keys do not exclude \<open>Less\<close>: two pods of one key may differ in priority or
  deadline.
\<close>

theorem Less_asymmetric_and_total:
  "(CreationTimestamp p1 \<noteq> 0 \<and> CreationTimestamp p2 \<noteq> 0 \<longrightarrow>
      \<not> (SimpleDDL_Less pd t1 t2 p1 p2 \<and> SimpleDDL_Less pd t3 t4 p2 p1)
      \<and> (SimpleDDL_Less pd t1 t2 p1 p2 \<or> SimpleDDL_Less pd t3 t4 p2 p1
           \<or> GetNamespacedName p1 = GetNamespacedName p2)
      \<and> (p1 = p2 \<longrightarrow> \<not> SimpleDDL_Less pd t1 t2 p1 p2))
   \<and> (t1 \<le> t2 \<and> t2 \<le> t3 \<and> t3 \<le> t4 \<and> t4 \<le> t1 + Hour
        \<and> EDF_Less pd t1 t2 p1 p2 m = (b, m') \<and> EDF_Less pd t3 t4 p2 p1 m' = (b', m'') \<longrightarrow>
      \<not> (b \<and> b')
      \<and> (b \<or> b' \<or> GetNamespacedName p1 = GetNamespacedName p2)
      \<and> (p1 = p2 \<longrightarrow> \<not> b))"
proof (intro conjI impI)
  assume c: "CreationTimestamp p1 \<noteq> 0 \<and> CreationTimestamp p2 \<noteq> 0"
  then have c1: "CreationTimestamp p1 \<noteq> 0" and c2: "CreationTimestamp p2 \<noteq> 0"
    by simp_all
  show "\<not> (SimpleDDL_Less pd t1 t2 p1 p2 \<and> SimpleDDL_Less pd t3 t4 p2 p1)"
    by (rule SimpleDDL_Less_pair(1) [OF c1 c2])
  show "SimpleDDL_Less pd t1 t2 p1 p2 \<or> SimpleDDL_Less pd t3 t4 p2 p1
         \<or> GetNamespacedName p1 = GetNamespacedName p2"
    by (rule SimpleDDL_Less_pair(2) [OF c1 c2])
  show "\<not> SimpleDDL_Less pd t1 t2 p1 p2" if "p1 = p2"
    by (rule SimpleDDL_Less_pair(3) [OF c1 c2 that])
next
  assume h: "t1 \<le> t2 \<and> t2 \<le> t3 \<and> t3 \<le> t4 \<and> t4 \<le> t1 + Hour
        \<and> EDF_Less pd t1 t2 p1 p2 m = (b, m') \<and> EDF_Less pd t3 t4 p2 p1 m' = (b', m'')"
  then have t: "t1 \<le> t2" "t2 \<le> t3" "t3 \<le> t4" "t4 \<le> t1 + Hour"
    and e: "EDF_Less pd t1 t2 p1 p2 m = (b, m')" "EDF_Less pd t3 t4 p2 p1 m' = (b', m'')"
    by simp_all
  show "\<not> (b \<and> b')"
    by (rule EDF_Less_pair(1) [OF t e])
  show "b \<or> b' \<or> GetNamespacedName p1 = GetNamespacedName p2"
    by (rule EDF_Less_pair(2) [OF t e])
  show "\<not> b" if "p1 = p2"
    by (rule EDF_Less_pair(3) [OF t e that])
qed

lemmas pod_defs = pod_unset_a_def pod_unset_b_def pod_high_def pod_low_def pod_10s_def
  pod_20s_def pod_slash_def

lemmas dm_defs = GetPodDeadline_def AddPodDeadline_def cache_Get_def cache_Set_def
  expired_def UnixNano_def ParsePodDeadline_def dm_empty_def

theorem Less_asymmetric_and_total_witness:
  "CreationTimestamp pod_10s \<noteq> 0 \<and> CreationTimestamp pod_20s \<noteq> 0
   \<and> SimpleDDL_Less pd0 T0 (T0 + 1) pod_10s pod_20s
   \<and> \<not> SimpleDDL_Less pd0 (T0 + 2) (T0 + 3) pod_20s pod_10s
   \<and> T0 \<le> T0 + 1 \<and> T0 + 1 \<le> T0 + 2 \<and> T0 + 2 \<le> T0 + 3 \<and> T0 + 3 \<le> T0 + Hour
   \<and> fst (EDF_Less pd0 T0 (T0 + 1) pod_10s pod_20s dm_empty)
   \<and> \<not> fst (EDF_Less pd0 (T0 + 2) (T0 + 3) pod_20s pod_10s
              (snd (EDF_Less pd0 T0 (T0 + 1) pod_10s pod_20s dm_empty)))"
  using Less_asymmetric_and_total [where ?p1.0 = pod_10s and ?p2.0 = pod_20s and pd = pd0
      and ?t1.0 = T0 and ?t2.0 = "T0 + 1" and ?t3.0 = "T0 + 2" and ?t4.0 = "T0 + 3"
      and m = dm_empty
      and b = "fst (EDF_Less pd0 T0 (T0 + 1) pod_10s pod_20s dm_empty)"
      and m' = "snd (EDF_Less pd0 T0 (T0 + 1) pod_10s pod_20s dm_empty)"
      and b' = "fst (EDF_Less pd0 (T0 + 2) (T0 + 3) pod_20s pod_10s
              (snd (EDF_Less pd0 T0 (T0 + 1) pod_10s pod_20s dm_empty)))"
      and m'' = "snd (EDF_Less pd0 (T0 + 2) (T0 + 3) pod_20s pod_10s
              (snd (EDF_Less pd0 T0 (T0 + 1) pod_10s pod_20s dm_empty)))"]
  by (simp add: SimpleDDL_Less_def EDF_Less_def parseDDL_def PodPriority_def annotation_def
      GetNamespacedName_def pod_defs pd0_def T0_def duration_defs key_defs dm_defs Let_def)

text \<open>
  As the specification states it, for every pair of pods, the property fails in three
  ways. In the simple profile two pods without a creation timestamp each get the clock
  reading of their own \<open>parseDDL\<close> call, so with a clock that advances \<open>Less\<close> is true
  for \<open>(a, b)\<close> and for \<open>(b, a)\<close>. In either
  profile two pods of one key and different priorities satisfy \<open>Less\<close> and the equality
  of keys together. In the preemptive profile the same two pods without a creation
  timestamp compare as \<open>Less\<close> both ways once the cached deadlines, kept for one hour,
  have expired between the comparisons.
\<close>

theorem Less_not_strict_counterexample:
  "SimpleDDL_Less pd0 (T0 + 1) (T0 + 2) pod_unset_a pod_unset_b
   \<and> SimpleDDL_Less pd0 (T0 + 3) (T0 + 4) pod_unset_b pod_unset_a
   \<and> SimpleDDL_Less pd0 T0 T0 pod_high pod_low
   \<and> GetNamespacedName pod_high = GetNamespacedName pod_low
   \<and> fst (EDF_Less pd0 T0 T0 pod_high pod_low dm_empty)
   \<and> fst (EDF_Less pd0 (T0 + 1) (T0 + 2) pod_unset_a pod_unset_b dm_empty)
   \<and> fst (EDF_Less pd0 (T0 + 2 * Hour) (T0 + 2 * Hour + 1) pod_unset_b pod_unset_a
            (snd (EDF_Less pd0 (T0 + 1) (T0 + 2) pod_unset_a pod_unset_b dm_empty)))"
  by (simp add: SimpleDDL_Less_def EDF_Less_def parseDDL_def PodPriority_def annotation_def
      GetNamespacedName_def pod_defs pd0_def T0_def duration_defs key_defs dm_defs Let_def)

section \<open>Pausing a candidate\<close>

lemma cache_Get_Set_fresh:
  "cache_Get k now (cache_Set k x Hour now c) = Some x"
  by (rule cache_Get_Set_same) (simp add: duration_defs)

lemma pausedPods_AddPausedPod:
  "pausedPods (AddPausedPod h now c m) =
     cache_Set (toCacheKey (C_Pod c)) (C_NodeName c) Hour now (pausedPods m)"
  by (simp add: AddPausedPod_def)

lemma markPodToPaused_annotation:
  "markPodToPaused lp = Some lp' \<Longrightarrow> annotation lp' AnnotationKeyPausePod = Some ''true''"
  by (auto simp: markPodToPaused_def annotation_def split: option.splits)

text \<open>
  C6. \<open>PauseCandidate\<close> is atomic for the paused map. When the lister has no latest pod it
  returns an error and leaves the map and the store as they were; when the API server
  refuses the pod marked \<open>pause-pod="true"\<close> it does the same; when the server accepts the
  write, it returns no error, the store holds the marked pod, and the map holds the
  candidate's node under the candidate's key. Whenever it returns, the map has changed
  only if the write succeeded.
\<close>

theorem PauseCandidate_atomic:
  "(podLister h (Namespace (C_Pod c)) (Name (C_Pod c)) = None \<longrightarrow>
      (\<exists>e. PauseCandidate h now c m api = Return (Some e, m, api)))
   \<and> (podLister h (Namespace (C_Pod c)) (Name (C_Pod c)) = Some lp
        \<and> markPodToPaused lp = Some lp' \<and> rejects h api lp' \<longrightarrow>
      (\<exists>e. PauseCandidate h now c m api = Return (Some e, m, api)))
   \<and> (podLister h (Namespace (C_Pod c)) (Name (C_Pod c)) = Some lp
        \<and> markPodToPaused lp = Some lp' \<and> \<not> rejects h api lp' \<longrightarrow>
      annotation lp' AnnotationKeyPausePod = Some ''true''
      \<and> PauseCandidate h now c m api =
          Return (None, AddPausedPod h now c m, api((Namespace lp', Name lp') \<mapsto> lp'))
      \<and> pausedPods (AddPausedPod h now c m) =
          (pausedPods m)(toCacheKey (C_Pod c) \<mapsto> (C_NodeName c, UnixNano (now + Hour)))
      \<and> cache_Get (toCacheKey (C_Pod c)) now (pausedPods (AddPausedPod h now c m))
          = Some (C_NodeName c))
   \<and> (PauseCandidate h now c m api = Return (r, m', api') \<and> pausedPods m' \<noteq> pausedPods m \<longrightarrow>
      r = None
      \<and> (\<exists>lp lp'. podLister h (Namespace (C_Pod c)) (Name (C_Pod c)) = Some lp
            \<and> markPodToPaused lp = Some lp' \<and> \<not> rejects h api lp'
            \<and> api' = api((Namespace lp', Name lp') \<mapsto> lp')))"
proof (intro conjI impI)
  assume "podLister h (Namespace (C_Pod c)) (Name (C_Pod c)) = None"
  then show "\<exists>e. PauseCandidate h now c m api = Return (Some e, m, api)"
    by (simp add: PauseCandidate_def)
next
  assume "podLister h (Namespace (C_Pod c)) (Name (C_Pod c)) = Some lp
        \<and> markPodToPaused lp = Some lp' \<and> rejects h api lp'"
  then show "\<exists>e. PauseCandidate h now c m api = Return (Some e, m, api)"
    by (simp add: PauseCandidate_def updatePod_def)
next
  assume a: "podLister h (Namespace (C_Pod c)) (Name (C_Pod c)) = Some lp
        \<and> markPodToPaused lp = Some lp' \<and> \<not> rejects h api lp'"
  then show "annotation lp' AnnotationKeyPausePod = Some ''true''"
    using markPodToPaused_annotation by blast
  from a show "PauseCandidate h now c m api =
          Return (None, AddPausedPod h now c m, api((Namespace lp', Name lp') \<mapsto> lp'))"
    by (simp add: PauseCandidate_def updatePod_def)
  show "pausedPods (AddPausedPod h now c m) =
          (pausedPods m)(toCacheKey (C_Pod c) \<mapsto> (C_NodeName c, UnixNano (now + Hour)))"
    by (simp add: pausedPods_AddPausedPod cache_Set_def duration_defs)
  show "cache_Get (toCacheKey (C_Pod c)) now (pausedPods (AddPausedPod h now c m))
          = Some (C_NodeName c)"
    by (simp add: pausedPods_AddPausedPod cache_Get_Set_fresh)
next
  assume b: "PauseCandidate h now c m api = Return (r, m', api') \<and> pausedPods m' \<noteq> pausedPods m"
  then show "r = None"
    by (auto simp: PauseCandidate_def updatePod_def split: option.splits if_splits)
  from b show "\<exists>lp lp'. podLister h (Namespace (C_Pod c)) (Name (C_Pod c)) = Some lp
            \<and> markPodToPaused lp = Some lp' \<and> \<not> rejects h api lp'
            \<and> api' = api((Namespace lp', Name lp') \<mapsto> lp')"
    by (auto simp: PauseCandidate_def updatePod_def split: option.splits if_splits)
qed


lemmas host_defs = host1_def host_refusing_def host_blind_def pm_empty_def api_empty_def
  node1_def cand_R_def pod_R_def pod_W_def pod_R_paused_def

theorem PauseCandidate_atomic_witness:
  "podLister host_blind (Namespace (C_Pod cand_R)) (Name (C_Pod cand_R)) = None
   \<and> PauseCandidate host_blind T0 cand_R pm_empty api_empty
       = Return (Some ErrGetLatestPod, pm_empty, api_empty)
   \<and> podLister host_refusing (Namespace (C_Pod cand_R)) (Name (C_Pod cand_R)) = Some pod_R
   \<and> markPodToPaused pod_R = Some pod_R_paused
   \<and> rejects host_refusing api_empty pod_R_paused
   \<and> PauseCandidate host_refusing T0 cand_R pm_empty api_empty
       = Return (Some ErrPausePod, pm_empty, api_empty)
   \<and> podLister host1 (Namespace (C_Pod cand_R)) (Name (C_Pod cand_R)) = Some pod_R
   \<and> \<not> rejects host1 api_empty pod_R_paused
   \<and> PauseCandidate host1 T0 cand_R pm_empty api_empty
       = Return (None, AddPausedPod host1 T0 cand_R pm_empty,
                 api_empty((''ns'', ''resident'') \<mapsto> pod_R_paused))
   \<and> cache_Get ''ns/resident'' T0 (pausedPods (AddPausedPod host1 T0 cand_R pm_empty))
       = Some ''node1''
   \<and> pausedPods (AddPausedPod host1 T0 cand_R pm_empty) \<noteq> pausedPods pm_empty"
proof -
  have l0: "podLister host_blind (Namespace (C_Pod cand_R)) (Name (C_Pod cand_R)) = None"
    by (simp add: host_defs)
  have l1: "podLister host_refusing (Namespace (C_Pod cand_R)) (Name (C_Pod cand_R)) = Some pod_R"
    and l2: "podLister host1 (Namespace (C_Pod cand_R)) (Name (C_Pod cand_R)) = Some pod_R"
    by (simp_all add: host_defs)
  have mk: "markPodToPaused pod_R = Some pod_R_paused"
    by (simp add: markPodToPaused_def pod_R_def pod_R_paused_def)
  have r1: "rejects host_refusing api_empty pod_R_paused"
    and r2: "\<not> rejects host1 api_empty pod_R_paused"
    by (simp_all add: host_defs)
  have nm: "Namespace pod_R_paused = ''ns''" "Name pod_R_paused = ''resident''"
    "toCacheKey (C_Pod cand_R) = ''ns/resident''" "C_NodeName cand_R = ''node1''"
    by (simp_all add: host_defs toCacheKey_def)
  have ne: "pausedPods (AddPausedPod host1 T0 cand_R pm_empty) \<noteq> pausedPods pm_empty"
    by (simp add: pausedPods_AddPausedPod cache_Set_def pm_empty_def)
  note w0 = PauseCandidate_atomic [where h = host_blind and c = cand_R and now = T0
      and m = pm_empty and api = api_empty]
  note w1 = PauseCandidate_atomic [where h = host_refusing and c = cand_R and now = T0
      and m = pm_empty and api = api_empty and lp = pod_R and lp' = pod_R_paused]
  note w2 = PauseCandidate_atomic [where h = host1 and c = cand_R and now = T0
      and m = pm_empty and api = api_empty and lp = pod_R and lp' = pod_R_paused
      and r = None and m' = "AddPausedPod host1 T0 cand_R pm_empty"
      and api' = "api_empty((''ns'', ''resident'') \<mapsto> pod_R_paused)"]
  have a: "PauseCandidate host_blind T0 cand_R pm_empty api_empty
       = Return (Some ErrGetLatestPod, pm_empty, api_empty)"
    using w0 l0 by (simp add: PauseCandidate_def)
  have b: "PauseCandidate host_refusing T0 cand_R pm_empty api_empty
       = Return (Some ErrPausePod, pm_empty, api_empty)"
    using w1 l1 mk r1 by (simp add: PauseCandidate_def updatePod_def)
  have c0: "PauseCandidate host1 T0 cand_R pm_empty api_empty
       = Return (None, AddPausedPod host1 T0 cand_R pm_empty,
                 api_empty((Namespace pod_R_paused, Name pod_R_paused) \<mapsto> pod_R_paused))"
    and d0: "cache_Get (toCacheKey (C_Pod cand_R)) T0
               (pausedPods (AddPausedPod host1 T0 cand_R pm_empty)) = Some (C_NodeName cand_R)"
    using w2 l2 mk r2 by blast+
  have c: "PauseCandidate host1 T0 cand_R pm_empty api_empty
       = Return (None, AddPausedPod host1 T0 cand_R pm_empty,
                 api_empty((''ns'', ''resident'') \<mapsto> pod_R_paused))"
    using c0 by (simp only: nm)
  have d: "cache_Get ''ns/resident'' T0 (pausedPods (AddPausedPod host1 T0 cand_R pm_empty))
       = Some ''node1''"
    using d0 by (simp only: nm)
  from l0 l1 l2 mk r1 r2 a b c d ne show ?thesis
    by simp
qed

section \<open>Resuming a paused pod\<close>

















section \<open>Choice of the pod to pause\<close>








lemmas plugin_defs = findCandidateOnNode_def selectCandidate_def latestOf_def
  unpausedResidents_def collectCandidates_def node2_def M_none_def M_one_def

lemma eval_findCandidate_W:
  "findCandidateOnNode host1 T0 dm_empty pod_W node1 = Some pod_R"
  by (simp add: plugin_defs host_defs dm_defs annotation_def key_defs duration_defs T0_def
      pd0_def Let_def)




section \<open>The preemptible annotation\<close>

lemma eval_PostFilter_W:
  "PostFilter host1 T0 pod_W Map.empty dm_empty pm_empty api_empty =
     Return ((Some ''node1'', (Success, [])), pm_paused,
             api_empty((''ns'', ''resident'') \<mapsto> pod_R_paused))"
proof -
  have c: "collectCandidates host1 T0 dm_empty pod_W Map.empty [node1] = [cand_R]"
    by (simp add: collectCandidates_def eval_findCandidate_W) (simp add: host_defs)
  have s: "selectCandidate host1 T0 dm_empty [cand_R] = Some cand_R"
    by (simp add: plugin_defs Let_def)
  have p: "PauseCandidate host1 T0 cand_R pm_empty api_empty =
     Return (None, pm_paused, api_empty((''ns'', ''resident'') \<mapsto> pod_R_paused))"
    by (simp add: PauseCandidate_def markPodToPaused_def updatePod_def pm_paused_def host_defs)
  have l: "NodeInfos_List host1 = Some [node1]"
    by (simp add: host1_def)
  show ?thesis
    by (simp add: PostFilter_def l c s p) (simp add: cand_R_def)
qed

text \<open>
  C5. Post-filter is never to select, and so never to pause, a resident that carries
  \<open>preemptible="false"\<close>. On \<open>node1\<close>, whose only resident \<open>pod_R\<close> carries that annotation
  and has the later deadline, \<open>findCandidateOnNode\<close> returns \<open>pod_R\<close> for \<open>pod_W\<close>, and
  \<open>PostFilter\<close> nominates \<open>node1\<close> after writing \<open>pod_R\<close> with \<open>pause-pod="true"\<close> to the
  store and entering it in the paused map: the annotation is not read.
\<close>

theorem PostFilter_pauses_non_preemptible:
  "annotation pod_R AnnotationKeyPreemptible = Some ''false''
   \<and> findCandidateOnNode host1 T0 dm_empty pod_W node1 = Some pod_R
   \<and> PostFilter host1 T0 pod_W Map.empty dm_empty pm_empty api_empty =
       Return ((Some ''node1'', (Success, [])), pm_paused,
               api_empty((''ns'', ''resident'') \<mapsto> pod_R_paused))
   \<and> annotation pod_R_paused AnnotationKeyPreemptible = Some ''false''
   \<and> annotation pod_R_paused AnnotationKeyPausePod = Some ''true''
   \<and> cache_Get (toCacheKey pod_R) T0 (pausedPods pm_paused) = Some ''node1''"
  by (simp add: eval_findCandidate_W eval_PostFilter_W)
     (simp add: annotation_def host_defs key_defs pm_paused_def pausedPods_AddPausedPod
        cache_Get_Set_fresh)

section \<open>The filter\<close>



section \<open>The pre-filter\<close>

lemma PreFilter_panics:
  assumes "podLister h (Namespace pod) (Name pod) = None"
    and "IsPodMarkedPaused pod"
    and "\<not> GetWaitingPod h (UID pod)" and "Phase pod \<noteq> PodPending"
  shows "PreFilter h M now pod dm pm = Panic"
  using assms by (simp add: PreFilter_def Let_def split_beta)

text \<open>
  C9. Every hook is to return a status. \<open>PreFilter\<close> of \<open>pod_R_paused\<close>, a running pod
  marked \<open>pause-pod="true"\<close> that the lister does not find, panics: it keeps the pod it was
  given when the lister returns nil, but then compares the candidate's UID with the UID
  of the nil pod.
\<close>

theorem PreFilter_panics_without_latest_pod:
  "podLister host_blind (Namespace pod_R_paused) (Name pod_R_paused) = None
   \<and> IsPodMarkedPaused pod_R_paused
   \<and> PreFilter host_blind M_none T0 pod_R_paused dm_empty () = Panic"
  by (simp add: PreFilter_def Let_def split_beta IsPodMarkedPaused_def annotation_def
      host_defs key_defs M_none_def)

end

